theory Spec2Isabelle
  imports Complex_Main
begin

section \<open>JavaScript values and numbers\<close>

text \<open>
  The handlers of \<^verbatim>\<open>src/app.js\<close> compute with JavaScript numbers. A number is
  modelled as an exact rational or \<open>NaN\<close>: the rounding of IEEE doubles and the two
  infinities are not modelled. Arithmetic and comparison follow the language: an
  operation on \<open>NaN\<close> gives \<open>NaN\<close>, and every comparison with \<open>NaN\<close> is false.
\<close>

datatype jsnum = Num rat | NaN

fun jsadd :: "jsnum \<Rightarrow> jsnum \<Rightarrow> jsnum" where
  "jsadd (Num a) (Num b) = Num (a + b)"
| "jsadd _ _ = NaN"

fun jssub :: "jsnum \<Rightarrow> jsnum \<Rightarrow> jsnum" where
  "jssub (Num a) (Num b) = Num (a - b)"
| "jssub _ _ = NaN"

fun jsmul :: "jsnum \<Rightarrow> jsnum \<Rightarrow> jsnum" where
  "jsmul (Num a) (Num b) = Num (a * b)"
| "jsmul _ _ = NaN"

text \<open>\<open>a < b\<close>, \<open>a <= b\<close> and \<open>a > b\<close> on numbers.\<close>

fun jslt :: "jsnum \<Rightarrow> jsnum \<Rightarrow> bool" where
  "jslt (Num a) (Num b) = (a < b)"
| "jslt _ _ = False"

fun jsle :: "jsnum \<Rightarrow> jsnum \<Rightarrow> bool" where
  "jsle (Num a) (Num b) = (a \<le> b)"
| "jsle _ _ = False"

definition jsgt :: "jsnum \<Rightarrow> jsnum \<Rightarrow> bool" where
  "jsgt a b = jslt b a"

text \<open>
  A value of a request: a JSON body field may be absent (\<open>undefined\<close>), \<open>null\<close>, a
  boolean, a number or a string. Arrays and objects are not modelled.
\<close>

datatype jsval = JUndefined | JNull | JBool bool | JNumber jsnum | JString string

subsection \<open>Reading numbers from strings\<close>

text \<open>
  Characters are bytes; the white space that \<^verbatim>\<open>parseInt\<close>, \<^verbatim>\<open>parseFloat\<close> and
  the conversion to a number strip is the ASCII part of the language's white space:
  tab, line feed, vertical tab, form feed, carriage return, space.
\<close>

definition isSpace :: "char \<Rightarrow> bool" where
  "isSpace c = (of_char c \<in> set [9, 10, 11, 12, 13, 32 :: nat])"

definition isDigit :: "char \<Rightarrow> bool" where
  "isDigit c = (48 \<le> (of_char c :: nat) \<and> (of_char c :: nat) \<le> 57)"

definition digitsVal :: "string \<Rightarrow> nat" where
  "digitsVal ds = foldl (\<lambda>n c. 10 * n + (of_char c - 48)) 0 ds"

text \<open>An optional sign in front of a literal: the factor and the rest of the text.\<close>

fun signOf :: "string \<Rightarrow> int \<times> string" where
  "signOf [] = (1, [])"
| "signOf (c # cs) =
     (if c = CHR ''-'' then (- 1, cs) else if c = CHR ''+'' then (1, cs) else (1, c # cs))"

text \<open>
  \<^verbatim>\<open>parseInt(s, 10)\<close>: leading white space is dropped, a sign is read, and the longest
  run of decimal digits that follows is the value; \<open>None\<close> is \<open>NaN\<close>, the result when
  no digit follows.
\<close>

definition parseInt :: "string \<Rightarrow> int option" where
  "parseInt s =
     (let (sign, t) = signOf (dropWhile isSpace s);
          z = takeWhile isDigit t
      in if z = [] then None else Some (sign * int (digitsVal z)))"

text \<open>
  The exponent part of a decimal literal, \<^verbatim>\<open>e\<close> or \<^verbatim>\<open>E\<close>, an optional sign and
  digits: the power of ten it stands for and the rest of the text. Without digits there
  is no exponent part and nothing is consumed.
\<close>

definition pow10 :: "int \<Rightarrow> rat" where
  "pow10 e = (if 0 \<le> e then 10 ^ nat e else 1 / 10 ^ nat (- e))"

definition scanExponent :: "string \<Rightarrow> rat \<times> string" where
  "scanExponent s =
     (case s of
        [] \<Rightarrow> (1, s)
      | c # cs \<Rightarrow>
          if c = CHR ''e'' \<or> c = CHR ''E'' then
            (let (sign, t) = signOf cs; ds = takeWhile isDigit t
             in if ds = [] then (1, s)
                else (pow10 (sign * int (digitsVal ds)), dropWhile isDigit t))
          else (1, s))"

text \<open>
  The longest prefix that is an unsigned decimal literal (digits, an optional fraction,
  an optional exponent; a fraction alone needs a digit): its value and the rest.
  The literal \<^verbatim>\<open>Infinity\<close> is not modelled.
\<close>

definition scanUnsigned :: "string \<Rightarrow> (rat \<times> string) option" where
  "scanUnsigned s =
     (let ip = takeWhile isDigit s; r1 = dropWhile isDigit s
      in case r1 of
           [] \<Rightarrow> if ip = [] then None else Some (of_nat (digitsVal ip), [])
         | c # r2 \<Rightarrow>
             if c = CHR ''.'' then
               (let fp = takeWhile isDigit r2; r3 = dropWhile isDigit r2
                in if ip = [] \<and> fp = [] then None
                   else (let (p, r4) = scanExponent r3
                         in Some ((of_nat (digitsVal ip)
                                    + of_nat (digitsVal fp) / 10 ^ length fp) * p, r4)))
             else if ip = [] then None
             else (let (p, r4) = scanExponent r1
                   in Some (of_nat (digitsVal ip) * p, r4)))"

text \<open>\<^verbatim>\<open>parseFloat\<close> of a string: the value of the longest prefix that is a literal.\<close>

definition parseFloatStr :: "string \<Rightarrow> jsnum" where
  "parseFloatStr s =
     (let (sign, t) = signOf (dropWhile isSpace s)
      in case scanUnsigned t of
           None \<Rightarrow> NaN
         | Some (v, _) \<Rightarrow> Num (of_int sign * v))"

text \<open>
  \<^verbatim>\<open>parseFloat(v)\<close> converts its argument to a string first: the texts
  \<^verbatim>\<open>undefined\<close>, \<^verbatim>\<open>null\<close>, \<^verbatim>\<open>true\<close>, \<^verbatim>\<open>false\<close> and \<^verbatim>\<open>NaN\<close> start with
  no literal, and the text of a number reads back as that number.
\<close>

fun parseFloat :: "jsval \<Rightarrow> jsnum" where
  "parseFloat JUndefined = NaN"
| "parseFloat JNull = NaN"
| "parseFloat (JBool _) = NaN"
| "parseFloat (JNumber n) = n"
| "parseFloat (JString s) = parseFloatStr s"

text \<open>
  The conversion to a number that the comparison and arithmetic operators apply to an
  operand. A string must be a literal as a whole, between white space; the empty string
  is 0. Hexadecimal, octal and binary literals and \<^verbatim>\<open>Infinity\<close> are not modelled.
\<close>

definition toNumberStr :: "string \<Rightarrow> jsnum" where
  "toNumberStr s =
     (let t = dropWhile isSpace s
      in if t = [] then Num 0
         else (let (sign, u) = signOf t
               in case scanUnsigned u of
                    None \<Rightarrow> NaN
                  | Some (v, r) \<Rightarrow> if dropWhile isSpace r = [] then Num (of_int sign * v) else NaN))"

fun toNumber :: "jsval \<Rightarrow> jsnum" where
  "toNumber JUndefined = NaN"
| "toNumber JNull = Num 0"
| "toNumber (JBool b) = Num (if b then 1 else 0)"
| "toNumber (JNumber n) = n"
| "toNumber (JString s) = toNumberStr s"

section \<open>The store\<close>

text \<open>
  Modelled from the spec: the tables Profile, Contract and Job, which \<^verbatim>\<open>./model\<close>
  declares and \<^verbatim>\<open>src/app.js\<close> only uses. The columns are those the handlers name
  and their types those of the spec's data model: a role and a status out of a fixed
  set, a decimal price, a boolean \<^verbatim>\<open>paid\<close>, a payment date that may be null. A
  table is the list of its rows; \<open>pid\<close>, \<open>cid\<close> and \<open>jid\<close> are the \<^verbatim>\<open>id\<close>
  columns, which are primary keys: the theorems that depend on it assume that the ids
  of a table are distinct. A decimal column is read as a number. \<open>price\<close> is only
  read by the handlers; \<open>balance\<close> holds whatever number a handler wrote last.
\<close>

datatype profile_type = Client | Contractor

datatype contract_status = New | In_progress | Terminated

record profile =
  pid :: int
  ptype :: profile_type
  profession :: string
  balance :: jsnum
  firstName :: string
  lastName :: string

record contract =
  cid :: int
  ClientId :: int
  ContractorId :: int
  status :: contract_status

record job =
  jid :: int
  ContractId :: int
  price :: rat
  paid :: bool
  paymentDate :: "int option"

record db =
  Profile :: "profile list"
  Contract :: "contract list"
  Job :: "job list"

text \<open>\<^verbatim>\<open>Model.findOne({ where })\<close>: the first row that satisfies the condition.\<close>

definition findOne :: "('a \<Rightarrow> bool) \<Rightarrow> 'a list \<Rightarrow> 'a option" where
  "findOne P rows = find P rows"

text \<open>
  \<^verbatim>\<open>instance.update({ balance })\<close> on a profile and
  \<^verbatim>\<open>job.update({ paid: true, paymentDate })\<close>: the rows with the instance's id are
  rewritten.
\<close>

definition updateBalance :: "int \<Rightarrow> jsnum \<Rightarrow> db \<Rightarrow> db" where
  "updateBalance i v s =
     s\<lparr>Profile := map (\<lambda>p. if pid p = i then p\<lparr>balance := v\<rparr> else p) (Profile s)\<rparr>"

definition markPaid :: "int \<Rightarrow> int \<Rightarrow> db \<Rightarrow> db" where
  "markPaid i now s =
     s\<lparr>Job := map (\<lambda>j. if jid j = i then j\<lparr>paid := True, paymentDate := Some now\<rparr> else j) (Job s)\<rparr>"

text \<open>The balance stored for a profile id.\<close>

definition balanceOf :: "db \<Rightarrow> int \<Rightarrow> jsnum option" where
  "balanceOf s i = map_option balance (find (\<lambda>p. pid p = i) (Profile s))"

section \<open>Responses\<close>

text \<open>
  A handler answers with a JSON payload (\<open>Ok\<close>), or with a status code and a text
  (\<open>Fail\<close>); \<open>FailWith\<close> is a text that ends in an interpolated number, whose
  formatting is not modelled. The \<^verbatim>\<open>catch\<close> branches (status 500) answer a failure
  of the store, which the model does not have.
\<close>

datatype 'a response = Ok 'a | Fail nat string | FailWith nat string jsnum

section \<open>POST /jobs/:job\_id/pay\<close>

text \<open>
  \<open>job_id\<close> is the path parameter, \<open>clientId\<close> the id of the caller's profile
  (\<^verbatim>\<open>req.profile.id\<close>, set by a middleware that is not part of the sources), \<open>now\<close>
  the time \<^verbatim>\<open>new Date()\<close> gives. The handler answers and leaves a store.
\<close>

definition transaction :: "profile \<Rightarrow> profile \<Rightarrow> job \<Rightarrow> int \<Rightarrow> db \<Rightarrow> db" where
  "transaction client contractor job now s =
     markPaid (jid job) now
       (updateBalance (pid contractor)
          (jsadd (parseFloat (JNumber (balance contractor))) (parseFloat (JNumber (Num (price job)))))
          (updateBalance (pid client)
             (jssub (parseFloat (JNumber (balance client))) (parseFloat (JNumber (Num (price job)))))
             s))"

definition settleJob :: "db \<Rightarrow> string \<Rightarrow> int \<Rightarrow> int \<Rightarrow> string response \<times> db" where
  "settleJob s job_id clientId now =
     (case parseInt job_id of
        None \<Rightarrow> (Fail 400 ''Invalid job ID'', s)
      | Some jobId \<Rightarrow>
          (case findOne (\<lambda>j. jid j = jobId) (Job s) of
             None \<Rightarrow> (Fail 404 ''Job not found'', s)
           | Some job \<Rightarrow>
               if paid job then (Fail 400 ''Job is already paid'', s)
               else
                 (case findOne (\<lambda>c. cid c = ContractId job) (Contract s) of
                    None \<Rightarrow> (Fail 404 ''Contract not found'', s)
                  | Some contract \<Rightarrow>
                      (let client = findOne (\<lambda>p. pid p = clientId \<and> ptype p = Client) (Profile s);
                           contractor = findOne (\<lambda>p. pid p = ContractorId contract \<and> ptype p = Contractor) (Profile s)
                       in case client of
                            None \<Rightarrow> (Fail 404 ''Client not found'', s)
                          | Some client \<Rightarrow>
                              if jslt (balance client) (Num (price job))
                              then (Fail 400 ''Insufficient funds'', s)
                              else
                                (case contractor of
                                   None \<Rightarrow> (Fail 404 ''Contractor not found'', s)
                                 | Some contractor \<Rightarrow>
                                     (Ok ''Payment successful'',
                                      transaction client contractor job now s))))))"

section \<open>POST /balances/deposit/:userId\<close>

text \<open>
  \<^verbatim>\<open>Job.sum("price", ...)\<close> over the unpaid jobs joined with the contracts of the
  client that are in progress: one row for each pair of a job and a contract that
  match. The sum of no rows is \<^verbatim>\<open>null\<close>, as the aggregate of a decimal column
  is, and the multiplication reads \<^verbatim>\<open>null\<close> as 0.
\<close>

definition unpaidJobsTotal :: "db \<Rightarrow> int \<Rightarrow> jsval" where
  "unpaidJobsTotal s userId =
     (let rows = concat (map (\<lambda>j. map (\<lambda>c. price j)
                    (filter (\<lambda>c. cid c = ContractId j \<and> ClientId c = userId \<and> status c = In_progress)
                       (Contract s)))
                  (filter (\<lambda>j. \<not> paid j) (Job s)))
      in if rows = [] then JNull else JNumber (Num (sum_list rows)))"

definition maxDeposit :: "db \<Rightarrow> int \<Rightarrow> jsnum" where
  "maxDeposit s userId = jsmul (toNumber (unpaidJobsTotal s userId)) (Num (1 / 4))"

text \<open>
  \<open>userId_param\<close> is the path parameter and \<open>amount\<close> the field of the body. On
  success the answer carries \<^verbatim>\<open>client.balance\<close>, which the update has set.
\<close>

definition deposit :: "db \<Rightarrow> string \<Rightarrow> jsval \<Rightarrow> jsnum response \<times> db" where
  "deposit s userId_param amount =
     (case parseInt userId_param of
        None \<Rightarrow> (Fail 400 ''Invalid request'', s)
      | Some userId \<Rightarrow>
          if jsle (toNumber amount) (Num 0) then (Fail 400 ''Invalid request'', s)
          else
            (case findOne (\<lambda>p. pid p = userId \<and> ptype p = Client) (Profile s) of
               None \<Rightarrow> (Fail 404 ''Client not found'', s)
             | Some client \<Rightarrow>
                 if jsgt (toNumber amount) (maxDeposit s userId)
                 then (FailWith 400 ''Deposit exceeds the maximum allowed limit of '' (maxDeposit s userId), s)
                 else
                   (let newBalance = jsadd (parseFloat (JNumber (balance client))) (parseFloat amount)
                    in (Ok newBalance, updateBalance (pid client) newBalance s))))"

section \<open>GET /contracts\<close>

text \<open>\<open>profileId\<close> is the id of the caller's profile. The handler only reads.\<close>

definition getContracts :: "db \<Rightarrow> int \<Rightarrow> contract list response" where
  "getContracts s profileId =
     (let activeContracts =
            filter (\<lambda>c. (ClientId c = profileId \<or> ContractorId c = profileId) \<and> status c = In_progress)
              (Contract s)
      in if length activeContracts = 0 then Fail 404 ''No active contracts found''
         else Ok activeContracts)"

section \<open>GET /admin/best-profession\<close>

text \<open>
  The query parameters \<open>start\<close> and \<open>end\<close> are modelled by the times
  \<^verbatim>\<open>new Date\<close> reads from them: \<open>None\<close> is a parameter that is missing or empty. A
  text that is no date is not modelled. \<^verbatim>\<open>BETWEEN\<close> includes both ends, and a job
  without a payment date is outside every window.
\<close>

definition between :: "int option \<Rightarrow> int \<Rightarrow> int \<Rightarrow> bool" where
  "between d a b = (case d of None \<Rightarrow> False | Some t \<Rightarrow> a \<le> t \<and> t \<le> b)"

definition paidInWindow :: "db \<Rightarrow> int \<Rightarrow> int \<Rightarrow> job list" where
  "paidInWindow s a b = filter (\<lambda>j. paid j \<and> between (paymentDate j) a b) (Job s)"

text \<open>
  The include joins a job to the pairs of its contract and the contract's profile of type
  contractor; a job that has no such pair stays in the result with no profession.
\<close>

definition contractorsOf :: "db \<Rightarrow> job \<Rightarrow> profile list" where
  "contractorsOf s j =
     concat (map (\<lambda>c. filter (\<lambda>p. pid p = ContractorId c \<and> ptype p = Contractor) (Profile s))
               (filter (\<lambda>c. cid c = ContractId j) (Contract s)))"

definition professionRows :: "db \<Rightarrow> int \<Rightarrow> int \<Rightarrow> (string option \<times> rat) list" where
  "professionRows s a b =
     concat (map (\<lambda>j. case contractorsOf s j of
                         [] \<Rightarrow> [(None, price j)]
                       | p # ps \<Rightarrow> map (\<lambda>q. (Some (profession q), price j)) (p # ps))
               (paidInWindow s a b))"

text \<open>
  \<^verbatim>\<open>GROUP BY\<close> with \<^verbatim>\<open>sum(price)\<close>, \<^verbatim>\<open>ORDER BY sum(price) DESC\<close> and
  \<^verbatim>\<open>LIMIT 1\<close>. The query does not say which of two groups with the same sum comes
  first; the model keeps the order in which the groups first occur.
\<close>

definition groupSums :: "('k \<times> rat) list \<Rightarrow> ('k \<times> rat) list" where
  "groupSums rows =
     map (\<lambda>k. (k, sum_list (map snd (filter (\<lambda>r. fst r = k) rows)))) (remdups (map fst rows))"

definition orderDesc :: "('k \<times> rat) list \<Rightarrow> ('k \<times> rat) list" where
  "orderDesc groups = sort_key (\<lambda>g. - snd g) groups"

definition bestProfession :: "db \<Rightarrow> int option \<Rightarrow> int option \<Rightarrow> (string option \<times> rat) response" where
  "bestProfession s start_q end_q =
     (case start_q of
        None \<Rightarrow> Fail 400 ''Start and end dates are required''
      | Some a \<Rightarrow>
          (case end_q of
             None \<Rightarrow> Fail 400 ''Start and end dates are required''
           | Some b \<Rightarrow>
               (case take 1 (orderDesc (groupSums (professionRows s a b))) of
                  [] \<Rightarrow> Fail 404 ''No professions found in the specified date range''
                | bestProfession # _ \<Rightarrow> Ok bestProfession)))"

section \<open>GET /admin/best-clients: the limit\<close>

text \<open>
  \<^verbatim>\<open>const { limit = 2 } = req.query\<close> and \<^verbatim>\<open>parseInt(limit, 10) || 2\<close>: the limit
  that the query is given. \<open>None\<close> is a request without the parameter. The default
  replaces \<open>NaN\<close> and 0, the two numbers that count as false.
\<close>

definition bestClientsLimit :: "string option \<Rightarrow> int" where
  "bestClientsLimit limit =
     (case limit of
        None \<Rightarrow> 2
      | Some l \<Rightarrow> (case parseInt l of None \<Rightarrow> 2 | Some n \<Rightarrow> if n = 0 then 2 else n))"

section \<open>Stores used as examples\<close>

text \<open>A client with 100, a contractor, one contract in progress, one unpaid job of 80.\<close>

definition store_100 :: db where
  "store_100 =
     \<lparr>Profile =
        [\<lparr>pid = 1, ptype = Client, profession = ''Wizard'', balance = Num 100,
          firstName = ''Harry'', lastName = ''Potter''\<rparr>,
         \<lparr>pid = 2, ptype = Contractor, profession = ''Programmer'', balance = Num 0,
          firstName = ''Linus'', lastName = ''Torvalds''\<rparr>],
      Contract = [\<lparr>cid = 1, ClientId = 1, ContractorId = 2, status = In_progress\<rparr>],
      Job = [\<lparr>jid = 1, ContractId = 1, price = 80, paid = False, paymentDate = None\<rparr>]\<rparr>"

text \<open>The same store with 50 on the client's balance.\<close>

definition store_50 :: db where
  "store_50 = updateBalance 1 (Num 50) store_100"

text \<open>A client with 50 and an unpaid job of 80 whose contract names a contractor that
  does not exist.\<close>

definition store_no_contractor :: db where
  "store_no_contractor =
     \<lparr>Profile =
        [\<lparr>pid = 1, ptype = Client, profession = ''Wizard'', balance = Num 50,
          firstName = ''Harry'', lastName = ''Potter''\<rparr>],
      Contract = [\<lparr>cid = 1, ClientId = 1, ContractorId = 2, status = In_progress\<rparr>],
      Job = [\<lparr>jid = 1, ContractId = 1, price = 80, paid = False, paymentDate = None\<rparr>]\<rparr>"

text \<open>The first store with an empty balance for the client.\<close>

definition store_0 :: db where
  "store_0 = updateBalance 1 (Num 0) store_100"

text \<open>The first store with a price of 200 for its unpaid job.\<close>

definition store_200 :: db where
  "store_200 = store_100\<lparr>Job := [\<lparr>jid = 1, ContractId = 1, price = 200, paid = False, paymentDate = None\<rparr>]\<rparr>"

text \<open>Two contractors of the professions A and B, with one paid job of 300 and one of 500.\<close>

definition store_AB :: db where
  "store_AB =
     \<lparr>Profile =
        [\<lparr>pid = 1, ptype = Client, profession = ''Wizard'', balance = Num 100,
          firstName = ''Harry'', lastName = ''Potter''\<rparr>,
         \<lparr>pid = 2, ptype = Contractor, profession = ''A'', balance = Num 300,
          firstName = ''John'', lastName = ''Lenon''\<rparr>,
         \<lparr>pid = 3, ptype = Contractor, profession = ''B'', balance = Num 500,
          firstName = ''Linus'', lastName = ''Torvalds''\<rparr>],
      Contract =
        [\<lparr>cid = 1, ClientId = 1, ContractorId = 2, status = In_progress\<rparr>,
         \<lparr>cid = 2, ClientId = 1, ContractorId = 3, status = Terminated\<rparr>],
      Job =
        [\<lparr>jid = 1, ContractId = 1, price = 300, paid = True, paymentDate = Some 5\<rparr>,
         \<lparr>jid = 2, ContractId = 2, price = 500, paid = True, paymentDate = Some 6\<rparr>]\<rparr>"

section \<open>The preconditions of a settlement, as the specification words them\<close>

text \<open>
  The job of a request, its contract, the payer (a profile of type client with the
  caller's id) and the performer (the profile of type contractor that the contract
  names), each looked up as the handler does.
\<close>

definition theJob :: "db \<Rightarrow> int \<Rightarrow> job option" where
  "theJob s jobId = findOne (\<lambda>j. jid j = jobId) (Job s)"

definition theContract :: "db \<Rightarrow> int \<Rightarrow> contract option" where
  "theContract s jobId =
     (case theJob s jobId of
        None \<Rightarrow> None
      | Some job \<Rightarrow> findOne (\<lambda>c. cid c = ContractId job) (Contract s))"

definition thePayer :: "db \<Rightarrow> int \<Rightarrow> profile option" where
  "thePayer s payerId = findOne (\<lambda>p. pid p = payerId \<and> ptype p = Client) (Profile s)"

definition thePerformer :: "db \<Rightarrow> int \<Rightarrow> profile option" where
  "thePerformer s jobId =
     (case theContract s jobId of
        None \<Rightarrow> None
      | Some contract \<Rightarrow>
          findOne (\<lambda>p. pid p = ContractorId contract \<and> ptype p = Contractor) (Profile s))"

definition jobExists :: "db \<Rightarrow> int \<Rightarrow> bool" where
  "jobExists s jobId = (theJob s jobId \<noteq> None)"

definition jobUnpaid :: "db \<Rightarrow> int \<Rightarrow> bool" where
  "jobUnpaid s jobId = (case theJob s jobId of None \<Rightarrow> False | Some job \<Rightarrow> \<not> paid job)"

definition contractExists :: "db \<Rightarrow> int \<Rightarrow> bool" where
  "contractExists s jobId = (theContract s jobId \<noteq> None)"

definition payerExists :: "db \<Rightarrow> int \<Rightarrow> bool" where
  "payerExists s payerId = (thePayer s payerId \<noteq> None)"

definition performerExists :: "db \<Rightarrow> int \<Rightarrow> bool" where
  "performerExists s jobId = (thePerformer s jobId \<noteq> None)"

text \<open>\<open>payer.balance >= job.price\<close>, as the handler tests it: the balance is not below
  the price.\<close>

definition sufficientFunds :: "db \<Rightarrow> int \<Rightarrow> int \<Rightarrow> bool" where
  "sufficientFunds s jobId payerId =
     (case theJob s jobId of
        None \<Rightarrow> False
      | Some job \<Rightarrow>
          (case thePayer s payerId of
             None \<Rightarrow> False
           | Some payer \<Rightarrow> \<not> jslt (balance payer) (Num (price job))))"

text \<open>The failure of the first check of a list that does not hold.\<close>

definition firstViolated :: "(bool \<times> 'e) list \<Rightarrow> 'e option" where
  "firstViolated checks = map_option snd (find (\<lambda>c. \<not> fst c) checks)"

text \<open>The six checks with their failures, in the order of the specification, and in
  the order in which the handler makes them.\<close>

definition checksAsSpecified :: "db \<Rightarrow> int \<Rightarrow> int \<Rightarrow> (bool \<times> string response) list" where
  "checksAsSpecified s jobId payerId =
     [(jobExists s jobId, Fail 404 ''Job not found''),
      (jobUnpaid s jobId, Fail 400 ''Job is already paid''),
      (contractExists s jobId, Fail 404 ''Contract not found''),
      (payerExists s payerId, Fail 404 ''Client not found''),
      (performerExists s jobId, Fail 404 ''Contractor not found''),
      (sufficientFunds s jobId payerId, Fail 400 ''Insufficient funds'')]"

definition checksAsCoded :: "db \<Rightarrow> int \<Rightarrow> int \<Rightarrow> (bool \<times> string response) list" where
  "checksAsCoded s jobId payerId =
     [(jobExists s jobId, Fail 404 ''Job not found''),
      (jobUnpaid s jobId, Fail 400 ''Job is already paid''),
      (contractExists s jobId, Fail 404 ''Contract not found''),
      (payerExists s payerId, Fail 404 ''Client not found''),
      (sufficientFunds s jobId payerId, Fail 400 ''Insufficient funds''),
      (performerExists s jobId, Fail 404 ''Contractor not found'')]"

section \<open>Notions of the specification\<close>

text \<open>
  The unpaid jobs that belong to a contract of the payer with status in progress; the
  deposit cap of the specification is a quarter of the sum of their prices.
\<close>

definition owedJobs :: "db \<Rightarrow> int \<Rightarrow> job list" where
  "owedJobs s payerId =
     filter (\<lambda>j. \<not> paid j \<and>
                 (\<exists>c \<in> set (Contract s). cid c = ContractId j \<and> ClientId c = payerId \<and> status c = In_progress))
       (Job s)"

text \<open>The contracts in progress in which a profile is client or contractor.\<close>

definition activeContractsOf :: "db \<Rightarrow> int \<Rightarrow> contract list" where
  "activeContractsOf s profileId =
     filter (\<lambda>c. status c = In_progress \<and> (ClientId c = profileId \<or> ContractorId c = profileId))
       (Contract s)"

text \<open>
  The profession of the performer on a job's contract, and the sum of the prices of the
  jobs paid within a window whose performer has a given profession.
\<close>

definition professionOf :: "db \<Rightarrow> job \<Rightarrow> string option" where
  "professionOf s j =
     (case findOne (\<lambda>c. cid c = ContractId j) (Contract s) of
        None \<Rightarrow> None
      | Some c \<Rightarrow>
          (case findOne (\<lambda>p. pid p = ContractorId c \<and> ptype p = Contractor) (Profile s) of
             None \<Rightarrow> None
           | Some p \<Rightarrow> Some (profession p)))"

definition earnings :: "db \<Rightarrow> int \<Rightarrow> int \<Rightarrow> string option \<Rightarrow> rat" where
  "earnings s a b k = sum_list (map price (filter (\<lambda>j. professionOf s j = k) (paidInWindow s a b)))"

text \<open>No balance below zero: every balance is a number that is at least 0; and its
  violation, some balance below 0.\<close>

definition nonNegative :: "db \<Rightarrow> bool" where
  "nonNegative s = list_all (\<lambda>p. jsle (Num 0) (balance p)) (Profile s)"

definition someNegative :: "db \<Rightarrow> bool" where
  "someNegative s = list_ex (\<lambda>p. jslt (balance p) (Num 0)) (Profile s)"

section \<open>Lemmas on the store\<close>




lemma find_SomeD: "find P xs = Some x \<Longrightarrow> P x \<and> x \<in> set xs"
  by (auto simp: find_Some_iff)


lemma settleJob_OkD:
  assumes "settleJob s job_id clientId now = (Ok m, s')"
  shows "\<exists>jobId job contract client contractor.
      parseInt job_id = Some jobId \<and>
      findOne (\<lambda>j. jid j = jobId) (Job s) = Some job \<and> \<not> paid job \<and>
      findOne (\<lambda>c. cid c = ContractId job) (Contract s) = Some contract \<and>
      findOne (\<lambda>p. pid p = clientId \<and> ptype p = Client) (Profile s) = Some client \<and>
      findOne (\<lambda>p. pid p = ContractorId contract \<and> ptype p = Contractor) (Profile s) = Some contractor \<and>
      \<not> jslt (balance client) (Num (price job)) \<and>
      s' = transaction client contractor job now s"
  using assms unfolding settleJob_def
  by (auto simp: Let_def split: option.splits if_splits)



section \<open>Lemmas on joins over a key\<close>

lemma filter_key_le_one:
  "distinct (map f xs) \<Longrightarrow> length (filter (\<lambda>x. f x = k \<and> Q x) xs) \<le> 1"
proof (induction xs)
  case Nil
  then show ?case by simp
next
  case (Cons x xs)
  show ?case
  proof (cases "f x = k")
    case True
    from Cons.prems have "f x \<notin> f ` set xs" by simp
    with True have "\<forall>y \<in> set xs. f y \<noteq> k" by blast
    then have "filter (\<lambda>y. f y = k \<and> Q y) xs = []"
      by (simp add: filter_empty_conv)
    then show ?thesis by simp
  next
    case False
    with Cons show ?thesis by simp
  qed
qed

lemma filter_as_find:
  "length (filter P xs) \<le> 1 \<Longrightarrow>
     filter P xs = (case find P xs of None \<Rightarrow> [] | Some x \<Rightarrow> [x])"
  by (induction xs) (auto split: if_splits)

lemma filter_key_find:
  assumes "distinct (map f xs)"
  shows "filter (\<lambda>x. f x = k \<and> Q x) xs =
           (case find (\<lambda>x. f x = k \<and> Q x) xs of None \<Rightarrow> [] | Some x \<Rightarrow> [x])"
  by (rule filter_as_find) (rule filter_key_le_one [OF assms])

lemma join_rows_one:
  assumes "distinct (map f xs)"
  shows "map (\<lambda>x. v) (filter (\<lambda>x. f x = k \<and> Q x) xs) =
           (if \<exists>x \<in> set xs. f x = k \<and> Q x then [v] else [])"
proof -
  let ?m = "filter (\<lambda>x. f x = k \<and> Q x) xs"
  have le: "length ?m \<le> 1" using assms by (rule filter_key_le_one)
  show ?thesis
  proof (cases ?m)
    case Nil
    then show ?thesis by (auto simp: filter_empty_conv)
  next
    case (Cons y ys)
    with le have ys: "ys = []" by simp
    have "y \<in> set ?m" using Cons by simp
    then have "y \<in> set xs" "f y = k \<and> Q y" by simp_all
    then have "\<exists>x \<in> set xs. f x = k \<and> Q x" by blast
    then show ?thesis using Cons ys by simp
  qed
qed

lemma unpaid_rows:
  assumes "distinct (map cid (Contract s))"
  shows "concat (map (\<lambda>j. map (\<lambda>c. price j)
            (filter (\<lambda>c. cid c = ContractId j \<and> ClientId c = u \<and> status c = In_progress) (Contract s)))
          (filter (\<lambda>j. \<not> paid j) (Job s)))
         = map price (owedJobs s u)"
proof -
  have "concat (map (\<lambda>j. map (\<lambda>c. price j)
            (filter (\<lambda>c. cid c = ContractId j \<and> ClientId c = u \<and> status c = In_progress) (Contract s))) js)
        = map price (filter (\<lambda>j. \<exists>c \<in> set (Contract s). cid c = ContractId j \<and> ClientId c = u \<and> status c = In_progress) js)"
    for js :: "job list"
    by (induction js) (simp_all add: join_rows_one [OF assms] del: bex_simps)
  then show ?thesis by (simp add: owedJobs_def)
qed



lemma contractorsOf_find:
  assumes dc: "distinct (map cid (Contract s))" and dp: "distinct (map pid (Profile s))"
  shows "contractorsOf s j =
           (case findOne (\<lambda>c. cid c = ContractId j) (Contract s) of
              None \<Rightarrow> []
            | Some c \<Rightarrow>
                (case findOne (\<lambda>p. pid p = ContractorId c \<and> ptype p = Contractor) (Profile s) of
                   None \<Rightarrow> []
                 | Some p \<Rightarrow> [p]))"
proof -
  have c: "filter (\<lambda>c. cid c = ContractId j) (Contract s) =
      (case find (\<lambda>c. cid c = ContractId j) (Contract s) of None \<Rightarrow> [] | Some x \<Rightarrow> [x])"
    using filter_key_find [OF dc, of "ContractId j" "\<lambda>_. True"] by simp
  show ?thesis
    unfolding contractorsOf_def c findOne_def
    by (simp add: filter_key_find [OF dp] split: option.splits)
qed

lemma professionRows_map:
  assumes dc: "distinct (map cid (Contract s))" and dp: "distinct (map pid (Profile s))"
  shows "professionRows s a b = map (\<lambda>j. (professionOf s j, price j)) (paidInWindow s a b)"
proof -
  have "(case contractorsOf s j of
           [] \<Rightarrow> [(None, price j)]
         | p # ps \<Rightarrow> map (\<lambda>q. (Some (profession q), price j)) (p # ps))
        = [(professionOf s j, price j)]" for j
    by (simp add: contractorsOf_find [OF dc dp] professionOf_def split: option.splits)
  then show ?thesis by (simp add: professionRows_def)
qed

lemma groupSums_map:
  "groupSums (map (\<lambda>j. (g j, w j)) js) =
     map (\<lambda>k. (k, sum_list (map w (filter (\<lambda>j. g j = k) js)))) (remdups (map g js))"
  by (simp add: groupSums_def filter_map comp_def)

lemma orderDesc_head:
  assumes "groups \<noteq> []"
  shows "\<exists>g rest. orderDesc groups = g # rest \<and> g \<in> set groups \<and> (\<forall>h \<in> set groups. snd h \<le> snd g)"
proof -
  let ?o = "sort_key (\<lambda>g. - snd g) groups"
  have ne: "?o \<noteq> []" using assms by (metis length_0_conv length_sort)
  then obtain g rest where o: "?o = g # rest" by (cases ?o) auto
  have srt: "sorted (map (\<lambda>g. - snd g) ?o)" by (rule sorted_sort_key)
  have st: "set ?o = set groups" by simp
  have "\<forall>h \<in> set ?o. - snd g \<le> - snd h" using srt unfolding o by auto
  then have "\<forall>h \<in> set groups. snd h \<le> snd g" using st by auto
  moreover have "g \<in> set groups" using st o by auto
  ultimately show ?thesis using o by (auto simp: orderDesc_def)
qed

section \<open>Lemmas on balances that are not negative\<close>

lemma updateBalance_nonNegative:
  "nonNegative s \<Longrightarrow> jsle (Num 0) v \<Longrightarrow> nonNegative (updateBalance i v s)"
  by (auto simp: nonNegative_def updateBalance_def list_all_iff)

lemma markPaid_nonNegative: "nonNegative (markPaid i now s) = nonNegative s"
  by (simp add: nonNegative_def markPaid_def)

lemma nonNegative_member:
  "nonNegative s \<Longrightarrow> p \<in> set (Profile s) \<Longrightarrow> \<exists>r. balance p = Num r \<and> 0 \<le> r"
  by (cases "balance p") (auto simp: nonNegative_def list_all_iff)

lemma settleJob_nonNegative:
  assumes nn: "nonNegative s" and pr: "list_all (\<lambda>j. 0 \<le> price j) (Job s)"
  shows "nonNegative (snd (settleJob s job_id clientId now))"
proof (cases "fst (settleJob s job_id clientId now) = Ok ''Payment successful''")
  case False
  then have "snd (settleJob s job_id clientId now) = s"
    by (auto simp: settleJob_def Let_def split: option.splits)
  with nn show ?thesis by simp
next
  case True
  then have "settleJob s job_id clientId now = (Ok ''Payment successful'', snd (settleJob s job_id clientId now))"
    by (simp add: prod_eq_iff)
  from settleJob_OkD [OF this] obtain jobId job contract client contractor where
    fj: "findOne (\<lambda>j. jid j = jobId) (Job s) = Some job"
    and fc: "findOne (\<lambda>c. cid c = ContractId job) (Contract s) = Some contract"
    and fp: "findOne (\<lambda>p. pid p = clientId \<and> ptype p = Client) (Profile s) = Some client"
    and fq: "findOne (\<lambda>p. pid p = ContractorId contract \<and> ptype p = Contractor) (Profile s) = Some contractor"
    and fu: "\<not> jslt (balance client) (Num (price job))"
    and s': "snd (settleJob s job_id clientId now) = transaction client contractor job now s"
    by blast
  have "job \<in> set (Job s)" using fj by (auto simp: findOne_def dest: find_SomeD)
  then have p0: "0 \<le> price job" using pr by (simp add: list_all_iff)
  have "client \<in> set (Profile s)" using fp by (auto simp: findOne_def dest: find_SomeD)
  from nonNegative_member [OF nn this] obtain a where a: "balance client = Num a" "0 \<le> a" by blast
  have "contractor \<in> set (Profile s)" using fq by (auto simp: findOne_def dest: find_SomeD)
  from nonNegative_member [OF nn this] obtain b where b: "balance contractor = Num b" "0 \<le> b" by blast
  have 1: "jsle (Num 0) (jssub (balance client) (Num (price job)))" using a fu by simp
  have 2: "jsle (Num 0) (jsadd (balance contractor) (Num (price job)))" using b p0 by simp
  show ?thesis
    unfolding s' transaction_def
    by (simp add: markPaid_nonNegative updateBalance_nonNegative nn 1 2)
qed

lemma deposit_number_nonNegative:
  assumes nn: "nonNegative s"
  shows "nonNegative (snd (deposit s userId_param (JNumber (Num amount))))"
proof -
  have "nonNegative (updateBalance (pid client) (jsadd (balance client) (Num amount)) s)"
    if c: "findOne (\<lambda>p. pid p = userId \<and> ptype p = Client) (Profile s) = Some client"
      and pos: "\<not> amount \<le> 0" for userId client
  proof -
    have "client \<in> set (Profile s)" using c by (auto simp: findOne_def dest: find_SomeD)
    from nonNegative_member [OF nn this] obtain a where "balance client = Num a" "0 \<le> a" by blast
    then have "jsle (Num 0) (jsadd (balance client) (Num amount))" using pos by simp
    then show ?thesis by (rule updateBalance_nonNegative [OF nn])
  qed
  then show ?thesis
    using nn by (auto simp: deposit_def Let_def split: option.splits)
qed

section \<open>Settlement: conservation of funds\<close>



section \<open>Settlement: the order of the checks\<close>

text \<open>
  The specification lists the check of the performer before the check of the funds. The
  handler looks both profiles up, then tests the client, the funds and the contractor in
  that order: in a store where the contractor is missing and the client's 50 do not
  cover the price of 80, the first violated check of the specified order is the
  performer's, and the handler answers that the funds are insufficient.
\<close>

theorem settleJob_funds_before_performer:
  "performerExists store_no_contractor 1 = False \<and>
   sufficientFunds store_no_contractor 1 1 = False \<and>
   firstViolated (checksAsSpecified store_no_contractor 1 1) = Some (Fail 404 ''Contractor not found'') \<and>
   fst (settleJob store_no_contractor ''1'' 1 0) = Fail 400 ''Insufficient funds''"
  by code_simp

text \<open>
  Claim C2, amended. For a job id that reads as a number, the answer is the failure of
  the first violated check in the order job exists, job unpaid, contract exists, payer
  exists, funds suffice, performer exists, and success when none is violated; the six
  failures are pairwise distinct.
\<close>

theorem settleJob_first_violated:
  assumes "parseInt job_id = Some jobId"
  shows "fst (settleJob s job_id payerId now) =
           (case firstViolated (checksAsCoded s jobId payerId) of
              Some failure \<Rightarrow> failure
            | None \<Rightarrow> Ok ''Payment successful'')
         \<and> distinct (map snd (checksAsCoded s jobId payerId))"
  using assms
  by (simp add: settleJob_def firstViolated_def checksAsCoded_def jobExists_def jobUnpaid_def
      contractExists_def payerExists_def performerExists_def sufficientFunds_def
      theJob_def theContract_def thePayer_def thePerformer_def Let_def
      split: option.splits)

theorem settleJob_first_violated_witness:
  "parseInt ''1'' = Some 1 \<and>
   firstViolated (checksAsCoded store_no_contractor 1 1) = Some (Fail 400 ''Insufficient funds'') \<and>
   fst (settleJob store_no_contractor ''1'' 1 0) = Fail 400 ''Insufficient funds''"
proof -
  have p: "parseInt ''1'' = Some 1" by code_simp
  have f: "firstViolated (checksAsCoded store_no_contractor 1 1) = Some (Fail 400 ''Insufficient funds'')"
    by code_simp
  show ?thesis using settleJob_first_violated [OF p, of store_no_contractor 1 0] p f by simp
qed

section \<open>Balances below zero\<close>

text \<open>
  Claim C3. From a store in which no balance is below zero, a deposit whose amount is
  the text \<^verbatim>\<open>-5abc\<close> passes both tests of the handler, since the text compares
  as \<open>NaN\<close>, and adds the \<open>-5\<close> that \<^verbatim>\<open>parseFloat\<close> reads from it: the
  client's balance of 0 becomes \<open>-5\<close>. The lemmas \<open>settleJob_nonNegative\<close> and
  \<open>deposit_number_nonNegative\<close> show what does hold: a settlement with prices that are
  not negative, and a deposit whose amount is a number, leave no balance below zero.
\<close>

theorem deposit_below_zero:
  "nonNegative store_0 \<and>
   toNumber (JString ''-5abc'') = NaN \<and>
   parseFloat (JString ''-5abc'') = Num (- 5) \<and>
   deposit store_0 ''1'' (JString ''-5abc'') = (Ok (Num (- 5)), updateBalance 1 (Num (- 5)) store_0) \<and>
   balanceOf (snd (deposit store_0 ''1'' (JString ''-5abc''))) 1 = Some (Num (- 5)) \<and>
   someNegative (snd (deposit store_0 ''1'' (JString ''-5abc'')))"
  by code_simp

section \<open>Settlement: a failure changes nothing\<close>

text \<open>
  Claim C4. Whenever the answer of a settlement is not the success message, the store
  it leaves is the store it was given; and with a payer's balance of 50 and an unpaid job
  priced 80 under an existing contract, the answer is the failure for insufficient funds
  and the store is unchanged.
\<close>

theorem settleJob_failure_unchanged:
  "(fst (settleJob s job_id clientId now) \<noteq> Ok ''Payment successful''
      \<longrightarrow> snd (settleJob s job_id clientId now) = s) \<and>
   (\<forall>jobId job contract payer.
      parseInt job_id = Some jobId \<and>
      findOne (\<lambda>j. jid j = jobId) (Job s) = Some job \<and> \<not> paid job \<and>
      findOne (\<lambda>c. cid c = ContractId job) (Contract s) = Some contract \<and>
      findOne (\<lambda>p. pid p = clientId \<and> ptype p = Client) (Profile s) = Some payer \<and>
      balance payer = Num 50 \<and> price job = 80
      \<longrightarrow> settleJob s job_id clientId now = (Fail 400 ''Insufficient funds'', s))"
  by (auto simp: settleJob_def Let_def split: option.splits)

theorem settleJob_failure_unchanged_witness:
  "fst (settleJob store_50 ''1'' 1 0) \<noteq> Ok ''Payment successful'' \<and>
   balanceOf store_50 1 = Some (Num 50) \<and>
   settleJob store_50 ''1'' 1 0 = (Fail 400 ''Insufficient funds'', store_50)"
proof -
  have a: "fst (settleJob store_50 ''1'' 1 0) \<noteq> Ok ''Payment successful''" by code_simp
  have b: "balanceOf store_50 1 = Some (Num 50)" by code_simp
  have c: "fst (settleJob store_50 ''1'' 1 0) = Fail 400 ''Insufficient funds''" by code_simp
  from settleJob_failure_unchanged [of store_50 "''1''" 1 0] a
  have "snd (settleJob store_50 ''1'' 1 0) = store_50" by blast
  with a b c show ?thesis by (simp add: prod_eq_iff)
qed

section \<open>The deposit cap\<close>

text \<open>
  Claim C5. In a store whose contract ids are distinct, the cap that the deposit handler
  computes is a quarter of the sum of the prices of the payer's unpaid jobs under
  contracts in progress; it is 0 when there is no such job, and 50 when the only such
  job is priced 200.
\<close>

theorem maxDeposit_quarter:
  assumes "distinct (map cid (Contract s))"
  shows "maxDeposit s payerId = Num (sum_list (map price (owedJobs s payerId)) / 4) \<and>
         (owedJobs s payerId = [] \<longrightarrow> maxDeposit s payerId = Num 0) \<and>
         (\<forall>j. owedJobs s payerId = [j] \<and> price j = 200 \<longrightarrow> maxDeposit s payerId = Num 50)"
proof -
  have "maxDeposit s payerId = Num (sum_list (map price (owedJobs s payerId)) / 4)"
    by (simp add: maxDeposit_def unpaidJobsTotal_def Let_def unpaid_rows [OF assms])
  then show ?thesis by auto
qed

theorem maxDeposit_quarter_witness:
  "distinct (map cid (Contract store_200)) \<and>
   map price (owedJobs store_200 1) = [200] \<and>
   maxDeposit store_200 1 = Num 50 \<and>
   owedJobs store_200 2 = [] \<and>
   maxDeposit store_200 2 = Num 0"
proof -
  have d: "distinct (map cid (Contract store_200))" by code_simp
  have o: "map price (owedJobs store_200 1) = [200]" "owedJobs store_200 2 = []" by code_simp+
  show ?thesis
    using maxDeposit_quarter [OF d, of 1] maxDeposit_quarter [OF d, of 2] d o by simp
qed

section \<open>Deposits of a positive number\<close>



section \<open>Deposits of an amount that is no number\<close>

text \<open>
  Claim C7. The handler rejects an amount with the test \<^verbatim>\<open>amount <= 0\<close>, which is
  false for every amount that compares as \<open>NaN\<close>. A request without an amount and a
  request whose amount is the text \<^verbatim>\<open>5 dollars\<close> are both accepted and change the
  balance, the first to \<open>NaN\<close> and the second by the 5 that \<^verbatim>\<open>parseFloat\<close> reads;
  the amounts 0 and \<open>-1\<close> are rejected.
\<close>

theorem deposit_missing_amount:
  "deposit store_100 ''1'' JUndefined = (Ok NaN, updateBalance 1 NaN store_100) \<and>
   deposit store_100 ''1'' (JString ''5 dollars'')
     = (Ok (Num 105), updateBalance 1 (Num 105) store_100) \<and>
   balanceOf store_100 1 = Some (Num 100) \<and>
   balanceOf (snd (deposit store_100 ''1'' JUndefined)) 1 = Some NaN \<and>
   balanceOf (snd (deposit store_100 ''1'' (JString ''5 dollars''))) 1 = Some (Num 105) \<and>
   deposit store_100 ''1'' (JNumber (Num 0)) = (Fail 400 ''Invalid request'', store_100) \<and>
   deposit store_100 ''1'' (JNumber (Num (- 1))) = (Fail 400 ''Invalid request'', store_100)"
  by code_simp

section \<open>The best profession\<close>

text \<open>
  Claim C8. In a store whose contract ids and profile ids are distinct: when no paid job
  has its payment date within the window, the answer is the failure with status 404;
  otherwise the answer is a profession of one of those jobs together with the sum of the
  prices of the jobs of that profession, and no profession of those jobs has a larger
  sum. The profession is \<open>None\<close> for the jobs whose contract or contractor does not
  exist.
\<close>

theorem bestProfession_maximal:
  assumes dc: "distinct (map cid (Contract s))" and dp: "distinct (map pid (Profile s))"
  shows "(paidInWindow s a b = []
           \<longrightarrow> bestProfession s (Some a) (Some b)
                 = Fail 404 ''No professions found in the specified date range'') \<and>
         (paidInWindow s a b \<noteq> []
           \<longrightarrow> (\<exists>k. bestProfession s (Some a) (Some b) = Ok (k, earnings s a b k) \<and>
                    k \<in> professionOf s ` set (paidInWindow s a b) \<and>
                    (\<forall>j \<in> set (paidInWindow s a b).
                       earnings s a b (professionOf s j) \<le> earnings s a b k)))"
proof -
  let ?js = "paidInWindow s a b"
  let ?groups = "groupSums (professionRows s a b)"
  have groups: "?groups = map (\<lambda>k. (k, earnings s a b k)) (remdups (map (professionOf s) ?js))"
    by (simp add: professionRows_map [OF dc dp] groupSums_map earnings_def)
  show ?thesis
  proof (intro conjI impI)
    assume "?js = []"
    then show "bestProfession s (Some a) (Some b)
        = Fail 404 ''No professions found in the specified date range''"
      by (simp add: bestProfession_def groups orderDesc_def)
  next
    assume ne: "?js \<noteq> []"
    then have "?groups \<noteq> []" by (simp add: groups)
    from orderDesc_head [OF this] obtain g rest where
      o: "orderDesc ?groups = g # rest" and g: "g \<in> set ?groups"
      and mx: "\<forall>h \<in> set ?groups. snd h \<le> snd g" by blast
    from g obtain k where k: "g = (k, earnings s a b k)" "k \<in> professionOf s ` set ?js"
      by (auto simp: groups)
    have "earnings s a b (professionOf s j) \<le> earnings s a b k" if "j \<in> set ?js" for j
    proof -
      have "(professionOf s j, earnings s a b (professionOf s j)) \<in> set ?groups"
        using that by (auto simp: groups)
      with mx show ?thesis using k(1) by fastforce
    qed
    moreover have "bestProfession s (Some a) (Some b) = Ok (k, earnings s a b k)"
      by (simp add: bestProfession_def o k(1))
    ultimately show "\<exists>k. bestProfession s (Some a) (Some b) = Ok (k, earnings s a b k) \<and>
        k \<in> professionOf s ` set ?js \<and>
        (\<forall>j \<in> set ?js. earnings s a b (professionOf s j) \<le> earnings s a b k)"
      using k(2) by blast
  qed
qed

theorem bestProfession_maximal_witness:
  "distinct (map cid (Contract store_AB)) \<and> distinct (map pid (Profile store_AB)) \<and>
   paidInWindow store_AB 0 10 \<noteq> [] \<and>
   earnings store_AB 0 10 (Some ''A'') = 300 \<and>
   earnings store_AB 0 10 (Some ''B'') = 500 \<and>
   bestProfession store_AB (Some 0) (Some 10) = Ok (Some ''B'', 500) \<and>
   paidInWindow store_AB 7 10 = [] \<and>
   bestProfession store_AB (Some 7) (Some 10) = Fail 404 ''No professions found in the specified date range''"
proof -
  have dc: "distinct (map cid (Contract store_AB))" by code_simp
  have dp: "distinct (map pid (Profile store_AB))" by code_simp
  have e: "paidInWindow store_AB 0 10 \<noteq> []" "earnings store_AB 0 10 (Some ''A'') = 300"
    "earnings store_AB 0 10 (Some ''B'') = 500" "paidInWindow store_AB 7 10 = []"
    by code_simp+
  have r: "bestProfession store_AB (Some 0) (Some 10) = Ok (Some ''B'', 500)" by code_simp
  show ?thesis
    using bestProfession_maximal [OF dc dp, of 7 10] dc dp e r by simp
qed

section \<open>The limit of the best clients\<close>

text \<open>
  Claim C9. The default of 2 replaces a limit that is missing, that is no number, or
  that is 0; a negative limit is handed to the query as it is.
\<close>

theorem bestClientsLimit_negative:
  "bestClientsLimit (Some ''-3'') = - 3 \<and>
   bestClientsLimit (Some ''0'') = 2 \<and>
   bestClientsLimit (Some ''abc'') = 2 \<and>
   bestClientsLimit None = 2"
  by code_simp

section \<open>The contracts of a caller\<close>

text \<open>
  The handler answers a caller without contracts in progress with status 404: in the
  first example store, profile 3 is party to no contract.
\<close>

theorem getContracts_empty_is_failure:
  "[c \<leftarrow> Contract store_100. status c = In_progress \<and> (ClientId c = 3 \<or> ContractorId c = 3)] = [] \<and>
   getContracts store_100 3 = Fail 404 ''No active contracts found'' \<and>
   getContracts store_100 3 \<noteq> Ok []"
  by code_simp

text \<open>
  Claim C10, amended. For a caller that is client or contractor of no contract in
  progress the answer is the failure with status 404 and the message that no active
  contracts were found; for every other caller it is the list of those contracts.
\<close>

theorem getContracts_none_active:
  "(activeContractsOf s profileId = []
      \<longrightarrow> getContracts s profileId = Fail 404 ''No active contracts found'') \<and>
   (activeContractsOf s profileId \<noteq> []
      \<longrightarrow> getContracts s profileId = Ok (activeContractsOf s profileId))"
  by (simp add: getContracts_def activeContractsOf_def Let_def conj_commute)

theorem getContracts_none_active_witness:
  "activeContractsOf store_100 3 = [] \<and>
   getContracts store_100 3 = Fail 404 ''No active contracts found'' \<and>
   activeContractsOf store_100 1 \<noteq> [] \<and>
   getContracts store_100 1 = Ok (activeContractsOf store_100 1)"
proof -
  have e: "activeContractsOf store_100 3 = []" "activeContractsOf store_100 1 \<noteq> []"
    by code_simp+
  show ?thesis
    using getContracts_none_active [of store_100 3] getContracts_none_active [of store_100 1] e
    by simp
qed

end
